theory Spec2Isabelle
  imports Complex_Main "HOL-Library.AList"
begin

section \<open>Python values\<close>

text \<open>
  A Python \<open>str\<close> is a sequence of Unicode code points; it is modelled as a list of
  code point numbers, so that lengths are counted as Python counts them.  String
  literals of the source are written with \<open>lit\<close>; characters that cannot be written in
  a literal are given by their code point (newline 10, apostrophe 39, colon 58,
  backslash 92).
\<close>

type_synonym str = "nat list"

definition lit :: "string \<Rightarrow> str" where
  "lit s = map of_char s"

text \<open>
  Python floats are modelled by exact rationals.  The source only applies \<open>int(...)\<close> to
  products and quotients of small integers with the constants 0.51, 0.31, 51/100, 31/100
  and size/100; for integer arguments between 0 and 100 the exact value is either an
  integer that the double computation hits exactly or at least 1/100 away from every
  integer, so truncating the exact value gives what Python's \<open>int\<close> gives.
\<close>

definition py_int :: "rat \<Rightarrow> int" where
  "py_int r = (if 0 \<le> r then \<lfloor>r\<rfloor> else \<lceil>r\<rceil>)"

text \<open>\<open>s.split(sep)\<close> for a non-empty separator; the second argument accumulates the current piece.\<close>

fun split_py :: "str \<Rightarrow> str \<Rightarrow> str \<Rightarrow> str list" where
  "split_py [] cur s = [rev cur @ s]"
| "split_py (p # ps) cur [] = [rev cur]"
| "split_py (p # ps) cur (c # cs) =
     (if take (Suc (length ps)) (c # cs) = p # ps
      then rev cur # split_py (p # ps) [] (drop (length ps) cs)
      else split_py (p # ps) (c # cur) cs)"

definition split_str :: "str \<Rightarrow> str \<Rightarrow> str list" where
  "split_str sep s = split_py sep [] s"

text \<open>\<open>s.split(sep, 1)\<close>: \<open>None\<close> when \<open>sep\<close> does not occur, else the text before and after
  the first occurrence.\<close>

fun split_once :: "str \<Rightarrow> str \<Rightarrow> str \<Rightarrow> (str \<times> str) option" where
  "split_once sep cur [] = (if sep = [] then Some (rev cur, []) else None)"
| "split_once sep cur (c # cs) =
     (if take (length sep) (c # cs) = sep
      then Some (rev cur, drop (length sep) (c # cs))
      else split_once sep (c # cur) cs)"

text \<open>\<open>sub in s\<close>.\<close>

definition contains :: "str \<Rightarrow> str \<Rightarrow> bool" where
  "contains sub s = (split_once sub [] s \<noteq> None)"

definition startswith :: "str \<Rightarrow> str \<Rightarrow> bool" where
  "startswith s p = (take (length p) s = p)"

text \<open>\<open>s.replace(old, new)\<close> for a non-empty \<open>old\<close>.\<close>

fun join_str :: "str \<Rightarrow> str list \<Rightarrow> str" where
  "join_str new [] = []"
| "join_str new [x] = x"
| "join_str new (x # y # ys) = x @ new @ join_str new (y # ys)"

definition replace_str :: "str \<Rightarrow> str \<Rightarrow> str \<Rightarrow> str" where
  "replace_str old new s = join_str new (split_str old s)"

text \<open>The characters \<open>str.strip()\<close> removes: those for which \<open>str.isspace\<close> holds.\<close>

definition isspace :: "nat \<Rightarrow> bool" where
  "isspace c = (c \<in> set [9, 10, 11, 12, 13, 28, 29, 30, 31, 32, 133, 160, 5760,
       8192, 8193, 8194, 8195, 8196, 8197, 8198, 8199, 8200, 8201, 8202,
       8232, 8233, 8239, 8287, 12288])"

definition strip :: "str \<Rightarrow> str" where
  "strip s = rev (dropWhile isspace (rev (dropWhile isspace s)))"

text \<open>\<open>str.lower()\<close>, on the ASCII letters (the colour names are set from a fixed palette).\<close>

definition lower :: "str \<Rightarrow> str" where
  "lower s = map (\<lambda>c. if 65 \<le> c \<and> c \<le> 90 then c + 32 else c) s"

text \<open>\<open>d.get(k, default)\<close> on a dictionary literal.\<close>

definition dict_get :: "('k \<times> 'v) list \<Rightarrow> 'k \<Rightarrow> 'v \<Rightarrow> 'v" where
  "dict_get d k dflt = (case map_of d k of None \<Rightarrow> dflt | Some v \<Rightarrow> v)"

text \<open>
  \<open>len(s.encode('utf-16-le')) // 2\<close>.  The encoder writes two bytes for a code point of
  the basic plane and a surrogate pair (four bytes) above it; it raises
  \<open>UnicodeEncodeError\<close> on a lone surrogate code point.
\<close>

datatype error =
    TelegramError
  | UnicodeEncodeError
  | ZeroDivisionError
  | FileNotFoundError
  | FileTooLarge
  | NoWatermarkFileId
  | FFmpegFailed str
  | FFmpegTimedOut
  | FFmpegNotFound
  | ImageWatermarkError error

fun encode_utf_16_le :: "str \<Rightarrow> error + nat list" where
  "encode_utf_16_le [] = Inr []"
| "encode_utf_16_le (c # cs) =
     (if 55296 \<le> c \<and> c \<le> 57343 then Inl UnicodeEncodeError
      else (case encode_utf_16_le cs of
        Inl e \<Rightarrow> Inl e
      | Inr bs \<Rightarrow>
          if c < 65536 then Inr (c mod 256 # c div 256 # bs)
          else let v = c - 65536; hi = 55296 + v div 1024; lo = 56320 + v mod 1024
               in Inr (hi mod 256 # hi div 256 # lo mod 256 # lo div 256 # bs)))"

text \<open>The number of UTF-16 code units of a code point, for stating lengths.\<close>

definition utf16_units :: "str \<Rightarrow> nat" where
  "utf16_units s = sum_list (map (\<lambda>c. if c < 65536 then 1 else 2) s)"

section \<open>Data model\<close>

text \<open>\<open>telegram.MessageEntity\<close>: the fields the source copies when it re-creates an entity.\<close>

record message_entity =
  type_e :: str
  offset :: int
  length_e :: int
  url :: "str option"
  user :: "int option"
  language :: "str option"
  custom_emoji_id :: "str option"

datatype inline_keyboard_button = InlineKeyboardButton str str

type_synonym inline_keyboard_markup = "inline_keyboard_button list list"

text \<open>
  The four rule blocks of a channel record.  They are Python dictionaries read with
  \<open>.get\<close>, so every key may be missing: a missing key is \<open>None\<close>.
\<close>

record auto_button_settings =
  ab_status :: "str option"
  ab_config :: "str option"

record auto_captions_settings =
  ac_status :: "str option"
  ac_config :: "str option"
  ac_entities :: "message_entity list option"

record auto_reactions_settings =
  ar_status :: "str option"

record auto_watermark_settings =
  wm_status :: "str option"
  wm_config :: "str option"
  wm_type :: "str option"
  wm_position :: "str option"
  wm_size :: "int option"
  wm_transparency :: "int option"
  wm_quality :: "int option"
  wm_rotation :: "int option"
  wm_color :: "str option"
  wm_effect :: "str option"
  wm_effect_speed :: "int option"
  wm_file_id :: "str option"
  wm_file_path :: "str option"

record channel_config =
  ch_id :: int
  title :: "str option"
  username :: "str option"
  chat_type :: str
  auto_button :: "auto_button_settings option"
  auto_captions :: "auto_captions_settings option"
  auto_reactions :: "auto_reactions_settings option"
  auto_watermark :: "auto_watermark_settings option"

text \<open>\<open>telegram.Message\<close>, the fields the handlers read.  \<open>photo\<close> lists the file ids of
  the sizes of a photo (empty when the message has no photo).\<close>

record message =
  message_id :: int
  chat_id :: int
  media_group_id :: "str option"
  date :: int
  msg_text :: "str option"
  caption :: "str option"
  entities :: "message_entity list"
  caption_entities :: "message_entity list"
  reply_markup :: "inline_keyboard_markup option"
  photo :: "str list"
  video :: "str option"
  animation :: "str option"

record chat =
  chat_ident :: int
  chat_title :: "str option"
  chat_username :: "str option"
  type_c :: str

datatype message_origin = MessageOriginChannel chat | MessageOriginOther

section \<open>Filter-graph compiler and media transform executor\<close>

text \<open>Files of the temporary directory and the stored watermark file.\<close>

datatype path =
    TempFile nat str          \<comment> \<open>\<open>TEMP_DIR / "{uuid}.{ext}"\<close>\<close>
  | WatermarkedFile nat str   \<comment> \<open>\<open>TEMP_DIR / "watermarked_{uuid}.{ext}"\<close>\<close>
  | WatermarkTemp int         \<comment> \<open>\<open>TEMP_DIR / "watermark_{ch_id}_temp.png"\<close>\<close>
  | StoredPath str            \<comment> \<open>\<open>Path(file_path)\<close>\<close>

text \<open>The arguments of \<open>apply_watermark\<close> and of \<open>apply_image_watermark\<close>.\<close>

record watermark_args =
  input_path :: path
  output_path :: path
  watermark_text :: str
  position :: str
  size_w :: int
  transparency :: int
  quality :: int
  is_video :: bool
  rotation :: int
  color :: str
  effect :: str
  effect_speed :: int

record image_watermark_args =
  img_input_path :: path
  img_output_path :: path
  watermark_image_path :: path
  img_position :: str
  img_size :: int
  img_transparency :: int
  img_quality :: int
  img_is_video :: bool
  img_rotation :: int
  img_effect :: str
  img_effect_speed :: int

text \<open>
  The filter expressions are built by the source as formatted strings.  They are kept
  here in structured form, one constructor for each format string, with the numbers
  that the source formats into the string as arguments:
  \<^item> \<open>ScrollLeft f\<close> is \<open>x=w-mod(t*{f}*w\,w+text_w):y=(h-text_h)/2\<close>,
  \<^item> \<open>ScrollRight f\<close> is \<open>x=-text_w+mod(t*{f}*w\,w+text_w):y=(h-text_h)/2\<close>,
  \<^item> \<open>ScrollUp f\<close> is \<open>x=(w-text_w)/2:y=h-mod(t*{f}*h\,h+text_h)\<close>,
  \<^item> \<open>ScrollDown f\<close> is \<open>x=(w-text_w)/2:y=-text_h+mod(t*{f}*h\,h+text_h)\<close>,
  \<^item> \<open>Wave px f\<close> is \<open>x={px}:y=((h-text_h)/2)+20*sin(t*{f})\<close>,
  \<^item> \<open>StaticPosition p\<close> is the position expression \<open>p\<close> itself;
  \<^item> \<open>ConstAlpha a\<close> is \<open>fontcolor={c}\<close> followed by an at sign and \<open>{a}\<close>,
  \<^item> \<open>FadeAlpha f a\<close> is \<open>fontcolor={c}:alpha='abs(sin(t*{f}))*{a}'\<close>,
  \<^item> \<open>PulseAlpha f a\<close> is \<open>fontcolor={c}:alpha='({a}*0.5)+({a}*0.5*abs(sin(t*{f})))'\<close>.
\<close>

datatype drawtext_placement =
    ScrollLeft rat
  | ScrollRight rat
  | ScrollUp rat
  | ScrollDown rat
  | Wave str rat
  | StaticPosition str

datatype drawtext_alpha =
    ConstAlpha rat
  | FadeAlpha rat rat
  | PulseAlpha rat rat

record drawtext =
  dt_fontfile :: "str option"
  dt_text :: str
  dt_fontcolor :: str
  dt_alpha :: drawtext_alpha
  dt_fontsize :: int
  dt_placement :: drawtext_placement

definition pos_map :: "(str \<times> str) list" where
  "pos_map =
    [(lit ''top_left'', lit ''x=10:y=10''),
     (lit ''top_center'', lit ''x=(w-text_w)/2:y=10''),
     (lit ''top_right'', lit ''x=w-text_w-10:y=10''),
     (lit ''mid_left'', lit ''x=10:y=(h-text_h)/2''),
     (lit ''center'', lit ''x=(w-text_w)/2:y=(h-text_h)/2''),
     (lit ''mid_right'', lit ''x=w-text_w-10:y=(h-text_h)/2''),
     (lit ''bottom_left'', lit ''x=10:y=h-text_h-10''),
     (lit ''bottom_center'', lit ''x=(w-text_w)/2:y=h-text_h-10''),
     (lit ''bottom_right'', lit ''x=w-text_w-10:y=h-text_h-10'')]"

definition color_map :: "(str \<times> str) list" where
  "color_map = map (\<lambda>c. (lit c, lit c))
     [''white'', ''black'', ''red'', ''blue'', ''green'', ''yellow'', ''cyan'',
      ''magenta'', ''orange'', ''purple'']"

text \<open>\<open>speed_factor = 100.0 / effect_speed\<close> of \<open>apply_watermark\<close>.\<close>

definition speed_factor :: "int \<Rightarrow> rat" where
  "speed_factor speed = 100 / of_int speed"

text \<open>
  The drawtext filter of \<open>apply_watermark\<close>.  \<open>font_file\<close> is the first font path that
  exists on the machine, if any.  The division by \<open>effect_speed\<close> raises
  \<open>ZeroDivisionError\<close> when the speed is zero.
\<close>

definition drawtext_filter :: "str option \<Rightarrow> watermark_args \<Rightarrow> error + drawtext" where
  "drawtext_filter font_file a =
    (let font_size = max 12 (py_int (48 * (of_int (size_w a) / 100)));
         alpha = of_int (100 - transparency a) / 100;
         font_color = dict_get color_map (lower (color a)) (lit ''white'');
         escaped_text = replace_str [39] [92, 39] (replace_str [58] [92, 58] (watermark_text a));
         font_file' = map_option (\<lambda>f. replace_str [58] [92, 58] (replace_str [92] [47] f)) font_file;
         pos_expr = dict_get pos_map (position a) (lit ''x=w-text_w-10:y=h-text_h-10'');
         base_filter = \<lparr>dt_fontfile = font_file', dt_text = escaped_text,
           dt_fontcolor = font_color, dt_alpha = ConstAlpha alpha, dt_fontsize = font_size,
           dt_placement = StaticPosition pos_expr\<rparr>
     in if is_video a \<and> effect a \<noteq> lit ''none'' then
          if effect_speed a = 0 then Inl ZeroDivisionError
          else let f = speed_factor (effect_speed a) in
            if effect a = lit ''scroll_left'' then Inr (base_filter\<lparr>dt_placement := ScrollLeft f\<rparr>)
            else if effect a = lit ''scroll_right'' then Inr (base_filter\<lparr>dt_placement := ScrollRight f\<rparr>)
            else if effect a = lit ''scroll_up'' then Inr (base_filter\<lparr>dt_placement := ScrollUp f\<rparr>)
            else if effect a = lit ''scroll_down'' then Inr (base_filter\<lparr>dt_placement := ScrollDown f\<rparr>)
            else if effect a = lit ''fade'' then Inr (base_filter\<lparr>dt_alpha := FadeAlpha f alpha\<rparr>)
            else if effect a = lit ''pulse'' then Inr (base_filter\<lparr>dt_alpha := PulseAlpha f alpha\<rparr>)
            else if effect a = lit ''wave'' then
              Inr (base_filter\<lparr>dt_placement :=
                Wave (replace_str (lit ''x='') [] (hd (split_str [58] pos_expr))) f\<rparr>)
            else Inr base_filter
        else Inr base_filter)"

text \<open>The encoder rate parameters of \<open>apply_watermark\<close>: \<open>int(51 - (quality * 0.51))\<close>
  for \<open>-crf\<close> and \<open>int((100 - quality) * 0.31)\<close> for \<open>-q:v\<close>.\<close>

definition crf_value :: "int \<Rightarrow> int" where
  "crf_value q = py_int (51 - of_int q * (51 / 100))"

definition qv_value :: "int \<Rightarrow> int" where
  "qv_value q = py_int (of_int (100 - q) * (31 / 100))"

text \<open>The encoder rate parameters of \<open>apply_image_watermark\<close>:
  \<open>max(0, min(51, 51 - int(quality * 51 / 100)))\<close> and
  \<open>max(1, min(31, int((100-quality)*31/100)))\<close>.\<close>

definition crf :: "int \<Rightarrow> int" where
  "crf q = max 0 (min 51 (51 - py_int (of_int (q * 51) / 100)))"

definition qv :: "int \<Rightarrow> int" where
  "qv q = max 1 (min 31 (py_int (of_int ((100 - q) * 31) / 100)))"

text \<open>
  The filter of \<open>apply_image_watermark\<close>: the watermark stage
  \<open>[1:v]scale=iw*{s}:-1,format=rgba[,rotate={r}:c=none:ow='hypot(iw,ih)':oh=ow],colorchannelmixer=aa={a}[wm]\<close>
  and the overlay stage, where \<open>FromStart c\<close> is the coordinate \<open>t*{c}*W/10\<close> (or
  \<open>t*{c}*H/10\<close>) and \<open>FromEnd c\<close> is \<open>W-overlay_w-t*{c}*W/10\<close> (or
  \<open>H-overlay_h-t*{c}*H/10\<close>); \<open>StaticOverlay p sh\<close> is \<open>overlay={p}\<close>, followed by
  \<open>:shortest=1\<close> when \<open>sh\<close> holds.
\<close>

record watermark_filter =
  wf_scale :: rat
  wf_rotate :: "rat option"
  wf_alpha :: rat

datatype overlay_axis = FromStart rat | FromEnd rat

datatype overlay_filter =
    MovingOverlay overlay_axis overlay_axis
  | StaticOverlay str bool

definition positions :: "(str \<times> str) list" where
  "positions =
    [(lit ''top_left'', lit ''10:10''),
     (lit ''top_center'', lit ''(main_w-overlay_w)/2:10''),
     (lit ''top_right'', lit ''main_w-overlay_w-10:10''),
     (lit ''mid_left'', lit ''10:(main_h-overlay_h)/2''),
     (lit ''center'', lit ''(main_w-overlay_w)/2:(main_h-overlay_h)/2''),
     (lit ''mid_right'', lit ''main_w-overlay_w-10:(main_h-overlay_h)/2''),
     (lit ''bottom_left'', lit ''10:main_h-overlay_h-10''),
     (lit ''bottom_center'', lit ''(main_w-overlay_w)/2:main_h-overlay_h-10''),
     (lit ''bottom_right'', lit ''main_w-overlay_w-10:main_h-overlay_h-10'')]"

definition watermark_filter_of :: "image_watermark_args \<Rightarrow> watermark_filter" where
  "watermark_filter_of a =
     \<lparr>wf_scale = of_int (img_size a) / 100,
      wf_rotate = (if img_rotation a \<noteq> 0
                   then Some (of_int (img_rotation a) * (314159 / 100000) / 180) else None),
      wf_alpha = of_int (100 - img_transparency a) / 100\<rparr>"

text \<open>\<open>speed_factor = effect_speed / 50.0\<close> of \<open>apply_image_watermark\<close>.\<close>

definition speed_factor_img :: "int \<Rightarrow> rat" where
  "speed_factor_img speed = of_int speed / 50"

definition overlay_filter_of :: "image_watermark_args \<Rightarrow> overlay_filter" where
  "overlay_filter_of a =
    (let overlay_position = dict_get positions (img_position a)
           (lit ''main_w-overlay_w-10:main_h-overlay_h-10'')
     in if img_is_video a \<and> img_effect a \<in> set [lit ''move_diagonal_dr'', lit ''move_diagonal_dl'',
            lit ''move_diagonal_ur'', lit ''move_diagonal_ul'']
        then let c = speed_factor_img (img_effect_speed a) * 100 in
          if img_effect a = lit ''move_diagonal_dr'' then MovingOverlay (FromStart c) (FromStart c)
          else if img_effect a = lit ''move_diagonal_dl'' then MovingOverlay (FromEnd c) (FromStart c)
          else if img_effect a = lit ''move_diagonal_ur'' then MovingOverlay (FromStart c) (FromEnd c)
          else MovingOverlay (FromEnd c) (FromEnd c)
        else StaticOverlay overlay_position (img_is_video a))"

text \<open>
  The four command lines the source builds:
  \<^item> \<open>DrawtextVideo i f n o\<close>: \<open>ffmpeg -i i -y -vf f -preset medium -crf n -c:a copy o\<close>;
  \<^item> \<open>DrawtextImage i f n o\<close>: \<open>ffmpeg -i i -y -vf f -q:v n o\<close>;
  \<^item> \<open>OverlayVideo i w f g n o\<close>: \<open>ffmpeg -i i -stream_loop -1 -i w -y -filter_complex f;g
     -preset medium -crf n -c:a copy -shortest o\<close>;
  \<^item> \<open>OverlayImage i w f g n o\<close>: \<open>ffmpeg -i i -i w -y -filter_complex f;g -frames:v 1 -q:v n o\<close>.
\<close>

datatype ffmpeg_command =
    DrawtextVideo path drawtext int path
  | DrawtextImage path drawtext int path
  | OverlayVideo path path watermark_filter overlay_filter int path
  | OverlayImage path path watermark_filter overlay_filter int path

definition ffmpeg_command_of :: "str option \<Rightarrow> watermark_args \<Rightarrow> error + ffmpeg_command" where
  "ffmpeg_command_of font_file a =
    (case drawtext_filter font_file a of
       Inl e \<Rightarrow> Inl e
     | Inr f \<Rightarrow>
         if is_video a
         then Inr (DrawtextVideo (input_path a) f (crf_value (quality a)) (output_path a))
         else Inr (DrawtextImage (input_path a) f (qv_value (quality a)) (output_path a)))"

definition cmd_of :: "image_watermark_args \<Rightarrow> ffmpeg_command" where
  "cmd_of a =
    (if img_is_video a
     then OverlayVideo (img_input_path a) (watermark_image_path a) (watermark_filter_of a)
            (overlay_filter_of a) (crf (img_quality a)) (img_output_path a)
     else OverlayImage (img_input_path a) (watermark_image_path a) (watermark_filter_of a)
            (overlay_filter_of a) (qv (img_quality a)) (img_output_path a))"

text \<open>
  The speed at which a compiled filter moves the watermark: the factor of the time
  variable \<open>t\<close> in the expression (zero for a static watermark).
\<close>

fun placement_rate :: "drawtext_placement \<Rightarrow> rat" where
  "placement_rate (ScrollLeft f) = f"
| "placement_rate (ScrollRight f) = f"
| "placement_rate (ScrollUp f) = f"
| "placement_rate (ScrollDown f) = f"
| "placement_rate (Wave px f) = f"
| "placement_rate (StaticPosition p) = 0"

fun alpha_rate :: "drawtext_alpha \<Rightarrow> rat" where
  "alpha_rate (ConstAlpha a) = 0"
| "alpha_rate (FadeAlpha f a) = f"
| "alpha_rate (PulseAlpha f a) = f"

definition drawtext_rate :: "drawtext \<Rightarrow> rat" where
  "drawtext_rate f = max (placement_rate (dt_placement f)) (alpha_rate (dt_alpha f))"

fun axis_rate :: "overlay_axis \<Rightarrow> rat" where
  "axis_rate (FromStart c) = c"
| "axis_rate (FromEnd c) = c"

fun overlay_rate :: "overlay_filter \<Rightarrow> rat" where
  "overlay_rate (MovingOverlay x y) = max (axis_rate x) (axis_rate y)"
| "overlay_rate (StaticOverlay p sh) = 0"

text \<open>
  What the external process does when it is started: the executable is missing, or the
  process runs.  \<open>Runs t rc err w\<close>: it exits after \<open>t\<close> seconds (\<open>None\<close>: it never
  exits) with return code \<open>rc\<close> and standard error \<open>err\<close>; \<open>w\<close> tells whether it has
  written its output file.
\<close>

datatype process_behaviour =
    ExecutableMissing
  | Runs "nat option" int str bool

section \<open>State, outbound calls and the environment\<close>

datatype media_kind = Photo | Video | Animation

datatype reply = AlreadySaved | SavedSuccessfully | CouldNotDetect | ErrorOccurred

text \<open>
  What a handler does to the outside, in the order it does it: the watermark routines it
  invokes, the external processes it starts and the calls to the platform.  A call is
  recorded when it is issued, whether it succeeds or raises.  The arguments are those of
  the source: chat id, message id, kind of media, file, caption or text, entities and
  reply markup.  \<open>SendMessage c e md\<close> is the failure notice for the error \<open>e\<close>, sent with
  Markdown (\<open>md\<close>) or as plain text.
\<close>

datatype event =
    ApplyWatermark watermark_args
  | ApplyImageWatermark image_watermark_args
  | RunFFmpeg ffmpeg_command
  | GetFile str
  | DownloadToDrive str path
  | EditMessageMedia int int media_kind path "str option" "message_entity list option"
      "inline_keyboard_markup option"
  | DeleteMessage int int
  | SendMedia int media_kind path "str option" "message_entity list"
      "inline_keyboard_markup option"
  | EditMessageText int int "str option" "message_entity list" "inline_keyboard_markup option"
  | EditMessageCaption int int str "message_entity list" "inline_keyboard_markup option"
  | SetMessageReaction int int
  | SendMessage int error bool
  | Sleep
  | ReplyText reply

text \<open>An entry of \<open>context.bot_data['media_groups']\<close>; the key \<open>processed\<close> is absent
  until the deferred job sets it.\<close>

record album_data =
  messages :: "message list"
  album_chat_id :: int
  timestamp :: int
  job_scheduled :: bool
  processed :: "bool option"

text \<open>A job of the job queue: \<open>run_once(process_media_group, when, data)\<close>.\<close>

record job =
  when_j :: rat
  data_media_group_id :: str

text \<open>
  The state the handlers work on: the registry \<open>USER_CHANNELS\<close> (a dictionary, in
  insertion order), the album table (absent until the first album item arrives), the job
  queue, the files on disk, what has been done to the outside, and the source of the
  \<open>uuid4()\<close> file names.
\<close>

record state =
  USER_CHANNELS :: "(int \<times> channel_config list) list"
  media_groups :: "(str \<times> album_data) list option"
  job_queue :: "job list"
  files :: "path list"
  trace :: "event list"
  next_uuid :: nat

text \<open>
  The outside world: the font found on the machine, what the transcoding process does for
  a command, what \<open>get_file\<close> answers for a file id (the size in bytes, or an error),
  whether \<open>download_to_drive\<close> succeeds, whether a platform call succeeds (else it
  raises \<open>TelegramError\<close>), and the id of a message sent anew.
\<close>

record env =
  font_file :: "str option"
  ffmpeg :: "ffmpeg_command \<Rightarrow> process_behaviour"
  get_file :: "str \<Rightarrow> error + nat"
  download_ok :: "str \<Rightarrow> bool"
  api_ok :: "event \<Rightarrow> bool"
  sent_message_id :: int

definition emit :: "event \<Rightarrow> state \<Rightarrow> state" where
  "emit e s = s\<lparr>trace := trace s @ [e]\<rparr>"

definition write_file :: "path \<Rightarrow> state \<Rightarrow> state" where
  "write_file p s = (if p \<in> set (files s) then s else s\<lparr>files := files s @ [p]\<rparr>)"

definition unlink :: "path \<Rightarrow> state \<Rightarrow> state" where
  "unlink p s = s\<lparr>files := removeAll p (files s)\<rparr>"

definition exists_p :: "state \<Rightarrow> path \<Rightarrow> bool" where
  "exists_p s p = (p \<in> set (files s))"

text \<open>
  \<open>apply_image_watermark\<close>: \<open>subprocess.run(cmd, timeout=300)\<close>.  A process that has not
  exited after 300 seconds raises \<open>TimeoutExpired\<close>; every other exception, the one for a
  non-zero return code included, is wrapped by the last \<open>except\<close> clause.
\<close>

definition apply_image_watermark ::
    "env \<Rightarrow> image_watermark_args \<Rightarrow> state \<Rightarrow> (error + path) \<times> state" where
  "apply_image_watermark en a s =
    (let s1 = emit (RunFFmpeg (cmd_of a)) s in
     (case ffmpeg en (cmd_of a) of
        ExecutableMissing \<Rightarrow> (Inl (ImageWatermarkError FileNotFoundError), s1)
      | Runs elapsed returncode stderr wrote \<Rightarrow>
          let s2 = (if wrote then write_file (img_output_path a) s1 else s1) in
          if (case elapsed of None \<Rightarrow> True | Some t \<Rightarrow> 300 < t)
          then (Inl FFmpegTimedOut, s2)
          else if returncode \<noteq> 0 then (Inl (ImageWatermarkError (FFmpegFailed stderr)), s2)
          else (Inr (img_output_path a), s2)))"

text \<open>
  \<open>apply_watermark\<close>: \<open>asyncio.create_subprocess_exec\<close> followed by
  \<open>await process.communicate()\<close>, which waits until the process exits.  The result is
  \<open>None\<close> when the routine never returns.
\<close>

definition apply_watermark ::
    "env \<Rightarrow> watermark_args \<Rightarrow> state \<Rightarrow> (error + path) option \<times> state" where
  "apply_watermark en a s =
    (case ffmpeg_command_of (font_file en) a of
       Inl e \<Rightarrow> (Some (Inl e), s)
     | Inr ffmpeg_command \<Rightarrow>
         let s1 = emit (RunFFmpeg ffmpeg_command) s in
         (case ffmpeg en ffmpeg_command of
            ExecutableMissing \<Rightarrow> (Some (Inl FFmpegNotFound), s1)
          | Runs elapsed returncode stderr wrote \<Rightarrow>
              let s2 = (if wrote then write_file (output_path a) s1 else s1) in
              (case elapsed of
                 None \<Rightarrow> (None, s2)
               | Some t \<Rightarrow>
                   if returncode \<noteq> 0 then (Some (Inl (FFmpegFailed stderr)), s2)
                   else (Some (Inr (output_path a)), s2))))"

text \<open>
  \<open>download_telegram_file\<close>: the size limit is \<open>max_size_mb\<close> megabytes (20 at every call
  site); \<open>file_size / (1024 * 1024) > max_size_mb\<close> is compared exactly.  The file name
  comes from \<open>uuid4()\<close>.
\<close>

definition download_telegram_file ::
    "env \<Rightarrow> str \<Rightarrow> str \<Rightarrow> nat \<Rightarrow> state \<Rightarrow> (error + path) \<times> state" where
  "download_telegram_file en file_id file_extension max_size_mb s =
    (let s1 = emit (GetFile file_id) s in
     (case get_file en file_id of
        Inl e \<Rightarrow> (Inl e, s1)
      | Inr file_size \<Rightarrow>
          if max_size_mb * (1024 * 1024) < file_size then (Inl FileTooLarge, s1)
          else
            let download_path = TempFile (next_uuid s1) file_extension;
                s2 = emit (DownloadToDrive file_id download_path)
                       (s1\<lparr>next_uuid := Suc (next_uuid s1)\<rparr>)
            in if download_ok en file_id then (Inr download_path, write_file download_path s2)
               else (Inl TelegramError, s2)))"

section \<open>Post transformation orchestrator\<close>

text \<open>
  The registry scan of \<open>handle_channel_post\<close> and \<open>process_media_group\<close>: the first
  record with the channel id in each owner's list; the scan stops at the first owner
  whose id is truthy (not zero).
\<close>

fun find_channel_config ::
    "(int \<times> channel_config list) list \<Rightarrow> int \<Rightarrow> channel_config option \<Rightarrow> channel_config option" where
  "find_channel_config [] c found = found"
| "find_channel_config ((uid, channels) # rest) c found =
     (case find (\<lambda>ch. ch_id ch = c) channels of
        None \<Rightarrow> find_channel_config rest c found
      | Some ch \<Rightarrow> if uid \<noteq> 0 then Some ch else find_channel_config rest c (Some ch))"

text \<open>\<open>settings and settings.get("status") == "active"\<close> for each rule block, and the
  \<open>watermark_active\<close> test.\<close>

definition button_active :: "channel_config \<Rightarrow> bool" where
  "button_active cfg =
     (case auto_button cfg of None \<Rightarrow> False | Some b \<Rightarrow> ab_status b = Some (lit ''active''))"

definition caption_active :: "channel_config \<Rightarrow> bool" where
  "caption_active cfg =
     (case auto_captions cfg of None \<Rightarrow> False | Some c \<Rightarrow> ac_status c = Some (lit ''active''))"

definition reactions_active :: "channel_config \<Rightarrow> bool" where
  "reactions_active cfg =
     (case auto_reactions cfg of None \<Rightarrow> False | Some r \<Rightarrow> ar_status r = Some (lit ''active''))"

definition watermark_active :: "channel_config \<Rightarrow> bool" where
  "watermark_active cfg =
     (case auto_watermark cfg of
        None \<Rightarrow> False
      | Some w \<Rightarrow> wm_status w = Some (lit ''active'') \<and> wm_config w \<noteq> None
          \<and> wm_config w \<noteq> Some (lit ''Not set''))"

text \<open>One \<open>&&\<close>-separated part of a line of the button configuration: the buttons it
  appends to \<open>line_buttons\<close>.\<close>

definition parse_part :: "str \<Rightarrow> inline_keyboard_button list" where
  "parse_part part0 =
    (let part = strip part0 in
     if contains (lit '' - '') part \<and> \<not> contains (lit '' - popup:'') part then
       (case split_once (lit '' - '') [] part of
          None \<Rightarrow> []
        | Some (text0, url0) \<Rightarrow>
            let text1 = strip text0;
                url1 = strip url0;
                url2 = (if \<not> (startswith url1 (lit ''http'') \<or> startswith url1 (lit ''t.me''))
                        then lit ''http://'' @ url1 else url1)
            in [InlineKeyboardButton text1 url2])
     else [])"

definition parse_buttons :: "str \<Rightarrow> inline_keyboard_markup" where
  "parse_buttons button_config_str =
     filter (\<lambda>line_buttons. line_buttons \<noteq> [])
       (map (\<lambda>line. concat (map parse_part (split_str (lit ''&&'') line)))
            (split_str [10] button_config_str))"

definition apply_auto_buttons ::
    "channel_config \<Rightarrow> inline_keyboard_markup option \<Rightarrow> inline_keyboard_markup option" where
  "apply_auto_buttons cfg final_reply_markup =
    (if button_active cfg then
       (case ab_config (the (auto_button cfg)) of
          None \<Rightarrow> final_reply_markup
        | Some button_config_str \<Rightarrow>
            if button_config_str \<noteq> [] \<and> button_config_str \<noteq> lit ''Not set'' then
              (let buttons = parse_buttons button_config_str
               in if buttons \<noteq> [] then Some buttons else final_reply_markup)
            else final_reply_markup)
     else final_reply_markup)"

text \<open>The entity the source creates for an entity of the configured caption.\<close>

definition adjusted_entity :: "int \<Rightarrow> message_entity \<Rightarrow> message_entity" where
  "adjusted_entity off entity =
     \<lparr>type_e = type_e entity, offset = offset entity + off, length_e = length_e entity,
      url = url entity, user = user entity, language = language entity,
      custom_emoji_id = custom_emoji_id entity\<rparr>"

definition apply_auto_captions ::
    "channel_config \<Rightarrow> str option \<Rightarrow> message_entity list
      \<Rightarrow> error + (str option \<times> message_entity list)" where
  "apply_auto_captions cfg final_text final_entities =
    (if caption_active cfg then
       (case ac_config (the (auto_captions cfg)) of
          None \<Rightarrow> Inr (final_text, final_entities)
        | Some caption_config_text \<Rightarrow>
            if caption_config_text \<noteq> [] \<and> caption_config_text \<noteq> lit ''Not set'' then
              (let caption_config_entities =
                     (case ac_entities (the (auto_captions cfg)) of None \<Rightarrow> [] | Some es \<Rightarrow> es)
               in case final_text of
                    Some t \<Rightarrow>
                      (let separator = [10, 10] in
                       case encode_utf_16_le t of
                         Inl e \<Rightarrow> Inl e
                       | Inr bytes \<Rightarrow>
                           (case encode_utf_16_le separator of
                              Inl e \<Rightarrow> Inl e
                            | Inr sep_bytes \<Rightarrow>
                                let base_len = length bytes div 2;
                                    off = int base_len + int (length sep_bytes div 2)
                                in Inr (Some (t @ separator @ caption_config_text),
                                     final_entities @ map (adjusted_entity off) caption_config_entities)))
                  | None \<Rightarrow> Inr (Some caption_config_text, caption_config_entities))
            else Inr (final_text, final_entities))
     else Inr (final_text, final_entities))"

text \<open>
  The text, entities and reply markup the source prepares from the post: the two rule
  blocks are applied by the same statements in the watermark branch and in the plain
  branch of \<open>handle_channel_post\<close>.
\<close>

definition original_text :: "message \<Rightarrow> str option" where
  "original_text post = (if msg_text post \<noteq> None then msg_text post else caption post)"

definition original_entities :: "message \<Rightarrow> message_entity list" where
  "original_entities post = (if msg_text post \<noteq> None then entities post else caption_entities post)"

definition compose ::
    "channel_config \<Rightarrow> message
      \<Rightarrow> error + (str option \<times> message_entity list \<times> inline_keyboard_markup option)" where
  "compose cfg post =
    (let final_reply_markup = apply_auto_buttons cfg (reply_markup post) in
     case apply_auto_captions cfg (original_text post) (original_entities post) of
       Inl e \<Rightarrow> Inl e
     | Inr (final_text, final_entities) \<Rightarrow> Inr (final_text, final_entities, final_reply_markup))"

text \<open>How a block of statements ends: it runs to its end, returns from the handler,
  raises, or never finishes.\<close>

datatype outcome = Passed | Returned | Raised error | Hung

text \<open>How a handler ends.\<close>

datatype result = Done | Uncaught error | NeverReturns

text \<open>The settings read with their defaults, as arguments of the text routine.\<close>

definition text_args ::
    "auto_watermark_settings \<Rightarrow> path \<Rightarrow> path \<Rightarrow> bool \<Rightarrow> watermark_args" where
  "text_args w inp out vid =
     \<lparr>input_path = inp, output_path = out,
      watermark_text = (case wm_config w of None \<Rightarrow> [] | Some c \<Rightarrow> c),
      position = (case wm_position w of None \<Rightarrow> lit ''bottom_right'' | Some p \<Rightarrow> p),
      size_w = (case wm_size w of None \<Rightarrow> 50 | Some n \<Rightarrow> n),
      transparency = (case wm_transparency w of None \<Rightarrow> 50 | Some n \<Rightarrow> n),
      quality = (case wm_quality w of None \<Rightarrow> 75 | Some n \<Rightarrow> n),
      is_video = vid,
      rotation = (case wm_rotation w of None \<Rightarrow> 0 | Some n \<Rightarrow> n),
      color = (case wm_color w of None \<Rightarrow> lit ''white'' | Some c \<Rightarrow> c),
      effect = (case wm_effect w of None \<Rightarrow> lit ''none'' | Some e \<Rightarrow> e),
      effect_speed = (case wm_effect_speed w of None \<Rightarrow> 50 | Some n \<Rightarrow> n)\<rparr>"

definition image_args ::
    "auto_watermark_settings \<Rightarrow> path \<Rightarrow> path \<Rightarrow> path \<Rightarrow> bool \<Rightarrow> image_watermark_args" where
  "image_args w inp out wm_path vid =
     \<lparr>img_input_path = inp, img_output_path = out, watermark_image_path = wm_path,
      img_position = (case wm_position w of None \<Rightarrow> lit ''bottom_right'' | Some p \<Rightarrow> p),
      img_size = (case wm_size w of None \<Rightarrow> 50 | Some n \<Rightarrow> n),
      img_transparency = (case wm_transparency w of None \<Rightarrow> 50 | Some n \<Rightarrow> n),
      img_quality = (case wm_quality w of None \<Rightarrow> 75 | Some n \<Rightarrow> n),
      img_is_video = vid,
      img_rotation = (case wm_rotation w of None \<Rightarrow> 0 | Some n \<Rightarrow> n),
      img_effect = (case wm_effect w of None \<Rightarrow> lit ''none'' | Some e \<Rightarrow> e),
      img_effect_speed = (case wm_effect_speed w of None \<Rightarrow> 50 | Some n \<Rightarrow> n)\<rparr>"

subsection \<open>Album aggregator\<close>

text \<open>The album branch at the head of \<open>handle_channel_post\<close>.\<close>

definition store_album_message :: "str \<Rightarrow> message \<Rightarrow> state \<Rightarrow> state" where
  "store_album_message g channel_post s =
    (let table0 = (case media_groups s of None \<Rightarrow> [] | Some t \<Rightarrow> t);
         table1 = (if map_of table0 g = None
                   then AList.update g \<lparr>messages = [], album_chat_id = chat_id channel_post,
                          timestamp = date channel_post, job_scheduled = False,
                          processed = None\<rparr> table0
                   else table0);
         album = the (map_of table1 g);
         album1 = album\<lparr>messages := messages album @ [channel_post]\<rparr>
     in if \<not> job_scheduled album1
        then s\<lparr>media_groups := Some (AList.update g (album1\<lparr>job_scheduled := True\<rparr>) table1),
               job_queue := job_queue s @ [\<lparr>when_j = 2, data_media_group_id = g\<rparr>]\<rparr>
        else s\<lparr>media_groups := Some (AList.update g album1 table1)\<rparr>)"

text \<open>
  One iteration of the loop of \<open>process_media_group\<close>: the body of the \<open>try\<close> statement
  for a photo or a video; any other message is passed over.  The two branches differ in
  the file extension, the kind of media and \<open>is_video\<close>.
\<close>

definition album_media :: "message \<Rightarrow> (media_kind \<times> str \<times> str) option" where
  "album_media msg =
    (if photo msg \<noteq> [] then Some (Photo, last (photo msg), lit ''jpg'')
     else case video msg of
            Some file_id \<Rightarrow> Some (Video, file_id, lit ''mp4'')
          | None \<Rightarrow> None)"

definition process_album_message ::
    "env \<Rightarrow> auto_watermark_settings \<Rightarrow> int \<Rightarrow> message \<Rightarrow> state \<Rightarrow> outcome \<times> state" where
  "process_album_message en w c msg s =
    (let caption0 = (if caption msg \<noteq> None \<and> caption msg \<noteq> Some [] then caption msg else None);
         caption_entities0 = (if caption_entities msg \<noteq> [] then Some (caption_entities msg) else None)
     in case album_media msg of
          None \<Rightarrow> (Passed, s)
        | Some (kind, file_id, ext) \<Rightarrow>
            (case download_telegram_file en file_id ext 20 s of
               (Inl e, s1) \<Rightarrow> (Raised e, s1)
             | (Inr downloaded_path, s1) \<Rightarrow>
                 let watermarked_path = WatermarkedFile (next_uuid s1) ext;
                     s2 = s1\<lparr>next_uuid := Suc (next_uuid s1)\<rparr>;
                     args = text_args w downloaded_path watermarked_path (kind = Video)
                 in (case apply_watermark en args (emit (ApplyWatermark args) s2) of
                       (None, s3) \<Rightarrow> (Hung, s3)
                     | (Some (Inl e), s3) \<Rightarrow> (Raised e, s3)
                     | (Some (Inr out), s3) \<Rightarrow>
                         if \<not> exists_p s3 watermarked_path then (Raised FileNotFoundError, s3)
                         else
                           let s4 = emit (EditMessageMedia c (message_id msg) kind watermarked_path
                                      caption0 caption_entities0 None) s3
                           in (Passed, unlink watermarked_path (unlink downloaded_path s4)))))"

fun process_album_messages ::
    "env \<Rightarrow> auto_watermark_settings \<Rightarrow> int \<Rightarrow> message list \<Rightarrow> state \<Rightarrow> outcome \<times> state" where
  "process_album_messages en w c [] s = (Passed, s)"
| "process_album_messages en w c (msg # msgs) s =
     (case process_album_message en w c msg s of
        (Hung, s1) \<Rightarrow> (Hung, s1)
      | (r, s1) \<Rightarrow> process_album_messages en w c msgs s1)"

definition delete_album :: "str \<Rightarrow> state \<Rightarrow> state" where
  "delete_album g s = s\<lparr>media_groups := map_option (AList.delete g) (media_groups s)\<rparr>"

text \<open>The deferred job \<open>process_media_group\<close> for the album identifier \<open>g\<close>.\<close>

definition process_media_group :: "env \<Rightarrow> str \<Rightarrow> state \<Rightarrow> result \<times> state" where
  "process_media_group en g s =
    (case media_groups s of
       None \<Rightarrow> (Done, s)
     | Some table \<Rightarrow>
         (case map_of table g of
            None \<Rightarrow> (Done, s)
          | Some album_data \<Rightarrow>
              if processed album_data = Some True then (Done, s)
              else
                let s1 = s\<lparr>media_groups := Some (AList.update g (album_data\<lparr>processed := Some True\<rparr>) table)\<rparr>
                in (case find_channel_config (USER_CHANNELS s1) (album_chat_id album_data) None of
                      None \<Rightarrow> (Done, delete_album g s1)
                    | Some channel_config \<Rightarrow>
                        if \<not> watermark_active channel_config then (Done, delete_album g s1)
                        else
                          (case process_album_messages en (the (auto_watermark channel_config))
                                  (album_chat_id album_data) (messages album_data) s1 of
                             (Hung, s2) \<Rightarrow> (NeverReturns, s2)
                           | (r, s2) \<Rightarrow> (Done, delete_album g s2)))))"

subsection \<open>Single posts\<close>

text \<open>The media of a post, in the order of the branches of the source: photo (largest
  size), video, animation; with the extension of the downloaded file.\<close>

definition media_of :: "message \<Rightarrow> (media_kind \<times> str \<times> str) option" where
  "media_of post =
    (if photo post \<noteq> [] then Some (Photo, last (photo post), lit ''jpg'')
     else case video post of
            Some file_id \<Rightarrow> Some (Video, file_id, lit ''mp4'')
          | None \<Rightarrow>
              (case animation post of
                 Some file_id \<Rightarrow> Some (Animation, file_id, lit ''mp4'')
               | None \<Rightarrow> None))"

text \<open>The watermark file of an image or animation watermark: the stored path if that
  file exists, else the file is downloaded again by its file id.\<close>

definition watermark_image_file ::
    "env \<Rightarrow> auto_watermark_settings \<Rightarrow> int \<Rightarrow> state \<Rightarrow> (error + path) \<times> state" where
  "watermark_image_file en w c s =
    (let watermark_image_path0 =
           (case wm_file_path w of
              None \<Rightarrow> None
            | Some p \<Rightarrow> if p \<noteq> [] then Some (StoredPath p) else None)
     in if watermark_image_path0 \<noteq> None \<and> exists_p s (the watermark_image_path0)
        then (Inr (the watermark_image_path0), s)
        else
          (case wm_file_id w of
             None \<Rightarrow> (Inl NoWatermarkFileId, s)
           | Some watermark_file_id \<Rightarrow>
               if watermark_file_id = [] then (Inl NoWatermarkFileId, s)
               else
                 let s1 = emit (GetFile watermark_file_id) s in
                 (case get_file en watermark_file_id of
                    Inl e \<Rightarrow> (Inl e, s1)
                  | Inr file_size \<Rightarrow>
                      let p = WatermarkTemp c;
                          s2 = emit (DownloadToDrive watermark_file_id p) s1
                      in if download_ok en watermark_file_id then (Inr p, write_file p s2)
                         else (Inl TelegramError, s2))))"

text \<open>
  The watermark step of the \<open>try\<close> block.  For a photo or a video the routine is chosen by
  the watermark type; for an animation the source calls \<open>apply_watermark\<close> directly.
\<close>

definition run_watermark ::
    "env \<Rightarrow> auto_watermark_settings \<Rightarrow> int \<Rightarrow> media_kind \<Rightarrow> path \<Rightarrow> path \<Rightarrow> state
      \<Rightarrow> outcome \<times> state" where
  "run_watermark en w c kind downloaded_file_path watermarked_file_path s =
    (let watermark_type = (case wm_type w of None \<Rightarrow> lit ''text'' | Some t \<Rightarrow> t) in
     if kind \<noteq> Animation \<and> watermark_type \<in> set [lit ''image'', lit ''animation''] then
       (case watermark_image_file en w c s of
          (Inl e, s1) \<Rightarrow> (Raised e, s1)
        | (Inr wm_path, s1) \<Rightarrow>
            let args = image_args w downloaded_file_path watermarked_file_path wm_path (kind = Video)
            in (case apply_image_watermark en args (emit (ApplyImageWatermark args) s1) of
                  (Inl e, s2) \<Rightarrow> (Raised e, s2)
                | (Inr out, s2) \<Rightarrow> (Passed, s2)))
     else
       (let args = text_args w downloaded_file_path watermarked_file_path (kind \<noteq> Photo)
        in case apply_watermark en args (emit (ApplyWatermark args) s) of
             (None, s1) \<Rightarrow> (Hung, s1)
           | (Some (Inl e), s1) \<Rightarrow> (Raised e, s1)
           | (Some (Inr out), s1) \<Rightarrow> (Passed, s1)))"

text \<open>The replacement of the media: \<open>edit_message_media\<close>, and on \<open>TelegramError\<close> the
  deletion of the post (its failure is ignored) and a new message.  The result is the id
  of \<open>edited_message\<close>.\<close>

definition replace_media ::
    "env \<Rightarrow> message \<Rightarrow> media_kind \<Rightarrow> path
      \<Rightarrow> str option \<times> message_entity list \<times> inline_keyboard_markup option
      \<Rightarrow> state \<Rightarrow> (error + int) \<times> state" where
  "replace_media en post kind watermarked_file_path final s =
    (case final of (final_text, final_entities, final_reply_markup) \<Rightarrow>
       if \<not> exists_p s watermarked_file_path then (Inl FileNotFoundError, s)
       else
         let edit = EditMessageMedia (chat_id post) (message_id post) kind watermarked_file_path
                      final_text (Some final_entities) final_reply_markup;
             s1 = emit edit s
         in if api_ok en edit then (Inr (message_id post), s1)
            else
              let s2 = emit (DeleteMessage (chat_id post) (message_id post)) s1;
                  send = SendMedia (chat_id post) kind watermarked_file_path final_text
                           final_entities final_reply_markup;
                  s3 = emit send s2
              in if api_ok en send then (Inr (sent_message_id en), s3)
                 else (Inl TelegramError, s3))"

text \<open>
  The \<open>try\<close> block of the watermark branch.  With the outcome it gives the values of
  \<open>downloaded_file_path\<close> and \<open>watermarked_file_path\<close> for the \<open>finally\<close> clause.
\<close>

definition watermark_post ::
    "env \<Rightarrow> channel_config \<Rightarrow> message
      \<Rightarrow> str option \<times> message_entity list \<times> inline_keyboard_markup option
      \<Rightarrow> state \<Rightarrow> outcome \<times> path option \<times> path option \<times> state" where
  "watermark_post en cfg post final s =
    (case media_of post of
       None \<Rightarrow> (Passed, None, None, s)
     | Some (kind, file_id, ext) \<Rightarrow>
         (case download_telegram_file en file_id ext 20 s of
            (Inl e, s1) \<Rightarrow> (Raised e, None, None, s1)
          | (Inr downloaded_file_path, s1) \<Rightarrow>
              let watermarked_file_path = WatermarkedFile (next_uuid s1) ext;
                  s2 = s1\<lparr>next_uuid := Suc (next_uuid s1)\<rparr>
              in (case run_watermark en (the (auto_watermark cfg)) (chat_id post) kind
                         downloaded_file_path watermarked_file_path s2 of
                    (Passed, s3) \<Rightarrow>
                      (case replace_media en post kind watermarked_file_path final s3 of
                         (Inl e, s4) \<Rightarrow>
                           (Raised e, Some downloaded_file_path, Some watermarked_file_path, s4)
                       | (Inr edited_message_id, s4) \<Rightarrow>
                           (Returned, Some downloaded_file_path, Some watermarked_file_path,
                            if reactions_active cfg
                            then emit (SetMessageReaction (chat_id post) edited_message_id) (emit Sleep s4)
                            else s4))
                  | (r, s3) \<Rightarrow> (r, Some downloaded_file_path, Some watermarked_file_path, s3))))"

text \<open>The \<open>except\<close> clause: the failure notice, sent once more as plain text when the
  first attempt is rejected.  The \<open>finally\<close> clause: each of the two files is removed
  if its variable is set and the file exists.\<close>

definition notify_failure :: "env \<Rightarrow> int \<Rightarrow> error \<Rightarrow> state \<Rightarrow> state" where
  "notify_failure en c e s =
    (let s1 = emit (SendMessage c e True) s
     in if api_ok en (SendMessage c e True) then s1 else emit (SendMessage c e False) s1)"

definition cleanup :: "path option \<Rightarrow> state \<Rightarrow> state" where
  "cleanup p s = (case p of None \<Rightarrow> s | Some f \<Rightarrow> if exists_p s f then unlink f s else s)"

text \<open>
  The plain branch of \<open>handle_channel_post\<close>: the composed text, the watermark text
  appended to a text message (after the bookmark sign, code point 128278), the edit if
  anything has changed, and the reaction.  A \<open>TelegramError\<close> of the edit or of the
  reaction is caught and logged.
\<close>

definition edit_post :: "env \<Rightarrow> channel_config \<Rightarrow> message \<Rightarrow> state \<Rightarrow> result \<times> state" where
  "edit_post en cfg post s =
    (case compose cfg post of
       Inl e \<Rightarrow> (Uncaught e, s)
     | Inr (final_text0, final_entities, final_reply_markup) \<Rightarrow>
         let watermark_config_text =
               (case wm_config (the (auto_watermark cfg)) of None \<Rightarrow> [] | Some c \<Rightarrow> c);
             final_text =
               (if watermark_active cfg \<and> msg_text post \<noteq> None \<and> msg_text post \<noteq> Some [] then
                  (case final_text0 of
                     Some t \<Rightarrow> Some (t @ [10, 10, 128278, 32] @ watermark_config_text)
                   | None \<Rightarrow> Some ([128278, 32] @ watermark_config_text))
                else final_text0);
             caption_changed =
               (final_text \<noteq> original_text post \<or> final_entities \<noteq> original_entities post);
             markup_changed = (final_reply_markup \<noteq> reply_markup post);
             s1 = (if caption_changed \<or> markup_changed then
                     (if msg_text post \<noteq> None
                      then emit (EditMessageText (chat_id post) (message_id post) final_text
                             final_entities final_reply_markup) s
                      else emit (EditMessageCaption (chat_id post) (message_id post)
                             (case final_text of None \<Rightarrow> [] | Some t \<Rightarrow> t)
                             final_entities final_reply_markup) s)
                   else s);
             s2 = (if reactions_active cfg
                   then emit (SetMessageReaction (chat_id post) (message_id post)) s1 else s1)
         in (Done, s2))"

text \<open>The condition under which the watermark branch is entered, and the validation
  at its head that makes the handler return.\<close>

definition has_media :: "message \<Rightarrow> bool" where
  "has_media post = (photo post \<noteq> [] \<or> video post \<noteq> None \<or> animation post \<noteq> None)"

definition watermark_unconfigured :: "auto_watermark_settings \<Rightarrow> bool" where
  "watermark_unconfigured w =
    (let watermark_type = (case wm_type w of None \<Rightarrow> lit ''text'' | Some t \<Rightarrow> t) in
     if watermark_type = lit ''text''
     then wm_config w = None \<or> wm_config w = Some [] \<or> wm_config w = Some (lit ''Not set'')
     else if watermark_type \<in> set [lit ''image'', lit ''animation'']
     then (wm_file_id w = None \<or> wm_file_id w = Some [])
        \<and> (wm_file_path w = None \<or> wm_file_path w = Some [])
     else False)"

definition handle_channel_post :: "env \<Rightarrow> message option \<Rightarrow> state \<Rightarrow> result \<times> state" where
  "handle_channel_post en update s =
    (case update of
       None \<Rightarrow> (Done, s)
     | Some channel_post \<Rightarrow>
         (case media_group_id channel_post of
            Some g \<Rightarrow> (Done, store_album_message g channel_post s)
          | None \<Rightarrow>
              (case find_channel_config (USER_CHANNELS s) (chat_id channel_post) None of
                 None \<Rightarrow> (Done, s)
               | Some channel_config \<Rightarrow>
                   if watermark_active channel_config \<and> has_media channel_post then
                     (if watermark_unconfigured (the (auto_watermark channel_config)) then (Done, s)
                      else
                        (case compose channel_config channel_post of
                           Inl e \<Rightarrow> (Uncaught e, s)
                         | Inr final \<Rightarrow>
                             (case watermark_post en channel_config channel_post final s of
                                (Hung, dp, wp, s1) \<Rightarrow> (NeverReturns, s1)
                              | (Returned, dp, wp, s1) \<Rightarrow> (Done, cleanup wp (cleanup dp s1))
                              | (Raised e, dp, wp, s1) \<Rightarrow>
                                  edit_post en channel_config channel_post
                                    (cleanup wp (cleanup dp
                                       (notify_failure en (chat_id channel_post) e s1)))
                              | (Passed, dp, wp, s1) \<Rightarrow>
                                  edit_post en channel_config channel_post
                                    (cleanup wp (cleanup dp s1)))))
                   else edit_post en channel_config channel_post s)))"

section \<open>Channel registry\<close>

text \<open>The record \<open>ch_info\<close> that \<open>handle_forwarded_message\<close> builds for the origin chat.\<close>

definition ch_info_of :: "chat \<Rightarrow> channel_config" where
  "ch_info_of fchat =
     \<lparr>ch_id = chat_ident fchat, title = chat_title fchat, username = chat_username fchat,
      chat_type = (if type_c fchat \<in> set [lit ''group'', lit ''supergroup''] then type_c fchat
                   else lit ''channel''),
      auto_button = Some \<lparr>ab_status = Some (lit ''inactive''), ab_config = Some (lit ''Not set'')\<rparr>,
      auto_captions = Some \<lparr>ac_status = Some (lit ''inactive''),
        ac_config = Some (lit ''Not set''), ac_entities = None\<rparr>,
      auto_reactions = Some \<lparr>ar_status = Some (lit ''inactive'')\<rparr>,
      auto_watermark = Some \<lparr>wm_status = Some (lit ''inactive''),
        wm_config = Some (lit ''Not set''), wm_type = None,
        wm_position = Some (lit ''bottom_right''), wm_size = Some 50,
        wm_transparency = Some 50, wm_quality = Some 75, wm_rotation = Some 0,
        wm_color = Some (lit ''white''), wm_effect = Some (lit ''none''),
        wm_effect_speed = Some 1, wm_file_id = None, wm_file_path = None\<rparr>\<rparr>"

text \<open>A reply inside the \<open>try\<close> statement of the handler: when it raises
  \<open>TelegramError\<close> the \<open>except\<close> clause replies with the error text; that reply is not
  guarded.\<close>

definition reply_text :: "env \<Rightarrow> reply \<Rightarrow> state \<Rightarrow> result \<times> state" where
  "reply_text en r s =
    (let s1 = emit (ReplyText r) s in
     if api_ok en (ReplyText r) then (Done, s1)
     else let s2 = emit (ReplyText ErrorOccurred) s1
          in if api_ok en (ReplyText ErrorOccurred) then (Done, s2)
             else (Uncaught TelegramError, s2))"

text \<open>\<open>handle_forwarded_message\<close> for the user \<open>user_id\<close> and the origin of the forwarded
  message.  The rewriting of the data file by \<open>save_data\<close> is not part of the state.\<close>

definition handle_forwarded_message ::
    "env \<Rightarrow> int \<Rightarrow> message_origin \<Rightarrow> state \<Rightarrow> result \<times> state" where
  "handle_forwarded_message en user_id origin s =
    (case origin of
       MessageOriginChannel fchat \<Rightarrow>
         let ch_info = ch_info_of fchat;
             users = (if map_of (USER_CHANNELS s) user_id = None
                      then USER_CHANNELS s @ [(user_id, [])] else USER_CHANNELS s);
             channels = the (map_of users user_id)
         in if ch_id ch_info \<in> set (map ch_id channels)
            then reply_text en AlreadySaved (s\<lparr>USER_CHANNELS := users\<rparr>)
            else reply_text en SavedSuccessfully
                   (s\<lparr>USER_CHANNELS := AList.update user_id (channels @ [ch_info]) users\<rparr>)
     | MessageOriginOther \<Rightarrow> reply_text en CouldNotDetect s)"

text \<open>The value after \<open>-crf\<close> or \<open>-q:v\<close> in a command line.\<close>

fun rate_parameter :: "ffmpeg_command \<Rightarrow> int" where
  "rate_parameter (DrawtextVideo i f n out) = n"
| "rate_parameter (DrawtextImage i f n out) = n"
| "rate_parameter (OverlayVideo i w f g n out) = n"
| "rate_parameter (OverlayImage i w f g n out) = n"

section \<open>Example inputs\<close>

text \<open>
  An environment in which every platform call succeeds, every file has 1000 bytes and
  the transcoding process behaves as given; the state at start-up; and arguments of the
  two watermark routines for a video.
\<close>

definition example_env :: "process_behaviour \<Rightarrow> env" where
  "example_env b = \<lparr>font_file = None, ffmpeg = (\<lambda>c. b), get_file = (\<lambda>f. Inr 1000),
     download_ok = (\<lambda>f. True), api_ok = (\<lambda>e. True), sent_message_id = 0\<rparr>"

definition empty_state :: state where
  "empty_state = \<lparr>USER_CHANNELS = [], media_groups = None, job_queue = [], files = [],
     trace = [], next_uuid = 0\<rparr>"

definition example_text_args :: watermark_args where
  "example_text_args = \<lparr>input_path = TempFile 0 (lit ''mp4''),
     output_path = WatermarkedFile 1 (lit ''mp4''), watermark_text = lit ''wm'',
     position = lit ''bottom_right'', size_w = 50, transparency = 50, quality = 75,
     is_video = True, rotation = 0, color = lit ''white'', effect = lit ''none'',
     effect_speed = 50\<rparr>"

definition example_image_args :: "int \<Rightarrow> image_watermark_args" where
  "example_image_args speed = \<lparr>img_input_path = TempFile 0 (lit ''mp4''),
     img_output_path = WatermarkedFile 1 (lit ''mp4''), watermark_image_path = WatermarkTemp 5,
     img_position = lit ''center'', img_size = 50, img_transparency = 50, img_quality = 75,
     img_is_video = True, img_rotation = 0, img_effect = lit ''move_diagonal_dr'',
     img_effect_speed = speed\<rparr>"

text \<open>
  A registered channel with an active text watermark \<open>wm\<close> and the other three rule
  blocks inactive, a photo post with the caption \<open>hi\<close> in that channel (single, or an
  item of the album \<open>g\<close>), the registry holding the channel, and the state after the
  album item has arrived.
\<close>

definition example_channel :: channel_config where
  "example_channel =
     (ch_info_of \<lparr>chat_ident = 7, chat_title = None, chat_username = None,
        type_c = lit ''channel''\<rparr>)
     \<lparr>auto_watermark := Some \<lparr>wm_status = Some (lit ''active''), wm_config = Some (lit ''wm''),
        wm_type = None, wm_position = None, wm_size = None, wm_transparency = None,
        wm_quality = None, wm_rotation = None, wm_color = None, wm_effect = None,
        wm_effect_speed = None, wm_file_id = None, wm_file_path = None\<rparr>\<rparr>"

definition example_photo :: "str option \<Rightarrow> message" where
  "example_photo g = \<lparr>message_id = 1, chat_id = 7, media_group_id = g, date = 0,
     msg_text = None, caption = Some (lit ''hi''), entities = [], caption_entities = [],
     reply_markup = None, photo = [lit ''small'', lit ''large''], video = None,
     animation = None\<rparr>"

definition example_state :: state where
  "example_state = empty_state\<lparr>USER_CHANNELS := [(1, [example_channel])]\<rparr>"

definition example_album_state :: state where
  "example_album_state = example_state\<lparr>media_groups := Some [(lit ''g'',
        \<lparr>messages = [example_photo (Some (lit ''g''))],
        album_chat_id = 7, timestamp = 0, job_scheduled = True, processed = None\<rparr>)],
      job_queue := [\<lparr>when_j = 2, data_media_group_id = lit ''g''\<rparr>]\<rparr>"

section \<open>Verified properties\<close>

subsection \<open>Encoder rate parameters\<close>

lemma py_int_frac: "0 \<le> a \<Longrightarrow> py_int (of_int a / 100) = a div 100"
proof -
  assume a: "0 \<le> a"
  have "(of_int a / 100 :: rat) = of_int a / of_int 100" by simp
  then have "\<lfloor>of_int a / 100 :: rat\<rfloor> = a div 100" by (simp only: floor_divide_of_int_eq)
  moreover have "0 \<le> (of_int a / 100 :: rat)" using a by simp
  ultimately show ?thesis by (simp add: py_int_def)
qed

lemma crf_value_eq:
  assumes "0 \<le> q" "q \<le> 100" shows "crf_value q = (5100 - 51 * q) div 100"
proof -
  have e: "(51 - of_int q * (51 / 100) :: rat) = of_int (5100 - 51 * q) / 100" by simp
  show ?thesis unfolding crf_value_def e by (rule py_int_frac) (use assms in linarith)
qed

lemma crf_eq: "0 \<le> q \<Longrightarrow> crf q = max 0 (min 51 (51 - (q * 51) div 100))"
  unfolding crf_def by (simp only: py_int_frac mult_nonneg_nonneg zero_le_numeral)

lemma crf_value_range: "1 \<le> q \<Longrightarrow> q \<le> 100 \<Longrightarrow> 0 \<le> crf_value q \<and> crf_value q \<le> 51"
  by (simp add: crf_value_eq) linarith

lemma crf_range: "0 \<le> crf q \<and> crf q \<le> 51"
  unfolding crf_def by simp

lemma qv_range: "1 \<le> qv q \<and> qv q \<le> 31"
  unfolding qv_def by simp

lemma crf_value_antimono: "1 \<le> q \<Longrightarrow> q \<le> q' \<Longrightarrow> q' \<le> 100 \<Longrightarrow> crf_value q' \<le> crf_value q"
  by (simp add: crf_value_eq zdiv_mono1)

lemma crf_antimono: assumes "1 \<le> q" "q \<le> q'" shows "crf q' \<le> crf q"
proof -
  have "q * 51 div 100 \<le> q' * 51 div 100" using assms by (intro zdiv_mono1) simp_all
  then show ?thesis using assms by (simp add: crf_eq max_def min_def)
qed

lemma drawtext_filter_returns:
  "effect_speed a \<noteq> 0 \<Longrightarrow> \<exists>f. drawtext_filter ff a = Inr f"
  unfolding drawtext_filter_def Let_def by simp

lemma ffmpeg_command_of_rate:
  assumes "effect_speed a \<noteq> 0"
  shows "\<exists>c. ffmpeg_command_of ff a = Inr c
           \<and> rate_parameter c = (if is_video a then crf_value (quality a) else qv_value (quality a))"
proof -
  obtain f where "drawtext_filter ff a = Inr f" using drawtext_filter_returns[OF assms] by blast
  then show ?thesis unfolding ffmpeg_command_of_def by simp
qed

lemma cmd_of_rate:
  "rate_parameter (cmd_of b) = (if img_is_video b then crf (img_quality b) else qv (img_quality b))"
  unfolding cmd_of_def by simp

text \<open>
  Claim C9, as amended.  For every quality from 1 to 100 the rate parameter of a video
  command is the inverted quality, between 0 and 51, in the text routine
  (\<open>crf_value\<close>) and in the image routine (\<open>crf\<close>), and it does not grow with the
  quality; for a still image the image routine passes an index between 1 and 31.  The
  still-image index of the text routine is left out.
\<close>

theorem rate_parameter_ranges:
  assumes "1 \<le> q" "q \<le> 100"
  shows "(quality a = q \<and> is_video a \<and> effect_speed a \<noteq> 0 \<longrightarrow>
            (\<exists>c. ffmpeg_command_of ff a = Inr c \<and> rate_parameter c = crf_value q
                 \<and> 0 \<le> rate_parameter c \<and> rate_parameter c \<le> 51))
       \<and> (img_quality b = q \<and> img_is_video b \<longrightarrow>
            rate_parameter (cmd_of b) = crf q
            \<and> 0 \<le> rate_parameter (cmd_of b) \<and> rate_parameter (cmd_of b) \<le> 51)
       \<and> (img_quality b' = q \<and> \<not> img_is_video b' \<longrightarrow>
            rate_parameter (cmd_of b') = qv q
            \<and> 1 \<le> rate_parameter (cmd_of b') \<and> rate_parameter (cmd_of b') \<le> 31)
       \<and> (q \<le> q' \<and> q' \<le> 100 \<longrightarrow> crf_value q' \<le> crf_value q \<and> crf q' \<le> crf q)"
proof (intro conjI impI)
  assume h: "quality a = q \<and> is_video a \<and> effect_speed a \<noteq> 0"
  then obtain c where c: "ffmpeg_command_of ff a = Inr c"
      "rate_parameter c = (if is_video a then crf_value (quality a) else qv_value (quality a))"
    using ffmpeg_command_of_rate[of a ff] by blast
  with h crf_value_range[OF assms]
  show "\<exists>c. ffmpeg_command_of ff a = Inr c \<and> rate_parameter c = crf_value q
                 \<and> 0 \<le> rate_parameter c \<and> rate_parameter c \<le> 51" by simp
next
  assume "img_quality b = q \<and> img_is_video b"
  then show "rate_parameter (cmd_of b) = crf q" by (simp add: cmd_of_rate)
next
  assume "img_quality b = q \<and> img_is_video b"
  then show "0 \<le> rate_parameter (cmd_of b)" using crf_range[of q] by (simp add: cmd_of_rate)
next
  assume "img_quality b = q \<and> img_is_video b"
  then show "rate_parameter (cmd_of b) \<le> 51" using crf_range[of q] by (simp add: cmd_of_rate)
next
  assume "img_quality b' = q \<and> \<not> img_is_video b'"
  then show "rate_parameter (cmd_of b') = qv q" by (simp add: cmd_of_rate)
next
  assume "img_quality b' = q \<and> \<not> img_is_video b'"
  then show "1 \<le> rate_parameter (cmd_of b')" using qv_range[of q] by (simp add: cmd_of_rate)
next
  assume "img_quality b' = q \<and> \<not> img_is_video b'"
  then show "rate_parameter (cmd_of b') \<le> 31" using qv_range[of q] by (simp add: cmd_of_rate)
next
  assume "q \<le> q' \<and> q' \<le> 100"
  then show "crf_value q' \<le> crf_value q" using crf_value_antimono[of q q'] assms by simp
next
  assume "q \<le> q' \<and> q' \<le> 100"
  then show "crf q' \<le> crf q" using crf_antimono[of q q'] assms by simp
qed

text \<open>The statement at quality 75: the three commands carry 12, 13 and 7.\<close>

theorem rate_parameter_ranges_witness:
  "(1::int) \<le> 75 \<and> (75::int) \<le> 100
   \<and> (\<exists>c. ffmpeg_command_of None
         \<lparr>input_path = TempFile 0 (lit ''mp4''), output_path = WatermarkedFile 1 (lit ''mp4''),
          watermark_text = lit ''wm'', position = lit ''bottom_right'', size_w = 50,
          transparency = 50, quality = 75, is_video = True, rotation = 0, color = lit ''white'',
          effect = lit ''none'', effect_speed = 50\<rparr> = Inr c \<and> rate_parameter c = 12)
   \<and> rate_parameter (cmd_of
         \<lparr>img_input_path = TempFile 0 (lit ''mp4''), img_output_path = WatermarkedFile 1 (lit ''mp4''),
          watermark_image_path = WatermarkTemp 5, img_position = lit ''center'', img_size = 50,
          img_transparency = 50, img_quality = 75, img_is_video = True, img_rotation = 0,
          img_effect = lit ''none'', img_effect_speed = 50\<rparr>) = 13
   \<and> rate_parameter (cmd_of
         \<lparr>img_input_path = TempFile 0 (lit ''jpg''), img_output_path = WatermarkedFile 1 (lit ''jpg''),
          watermark_image_path = WatermarkTemp 5, img_position = lit ''center'', img_size = 50,
          img_transparency = 50, img_quality = 75, img_is_video = False, img_rotation = 0,
          img_effect = lit ''none'', img_effect_speed = 50\<rparr>) = 7
   \<and> crf_value 100 \<le> crf_value 75 \<and> crf 100 \<le> crf 75"
  (is "_ \<and> _ \<and> (\<exists>c. ffmpeg_command_of None ?A = Inr c \<and> _) \<and> rate_parameter (cmd_of ?B) = _
       \<and> rate_parameter (cmd_of ?B') = _ \<and> _ \<and> _")
proof -
  have p: "(1::int) \<le> 75" "(75::int) \<le> 100" by simp_all
  have v: "crf_value 75 = 12" "crf 75 = 13" "qv 75 = 7" by code_simp+
  note t = rate_parameter_ranges[OF p, of ?A None ?B ?B' 100]
  have a: "quality ?A = 75 \<and> is_video ?A \<and> effect_speed ?A \<noteq> 0" by simp
  have b: "img_quality ?B = 75 \<and> img_is_video ?B" by simp
  have b': "img_quality ?B' = 75 \<and> \<not> img_is_video ?B'" by simp
  from t a have 1: "\<exists>c. ffmpeg_command_of None ?A = Inr c \<and> rate_parameter c = 12"
    unfolding v by blast
  from t b have 2: "rate_parameter (cmd_of ?B) = 13" unfolding v by blast
  from t b' have 3: "rate_parameter (cmd_of ?B') = 7" unfolding v by blast
  from t have 4: "crf_value 100 \<le> crf_value 75 \<and> crf 100 \<le> crf 75" by simp
  from p 1 2 3 4 show ?thesis by blast
qed

text \<open>
  Claim C9 as stated fails: at quality 100 the image routine passes the index 1 for a
  still image, which is below 2.
\<close>

theorem still_quality_index_counterexample:
  "\<not> (2 \<le> rate_parameter (cmd_of
         \<lparr>img_input_path = TempFile 0 (lit ''jpg''), img_output_path = WatermarkedFile 1 (lit ''jpg''),
          watermark_image_path = WatermarkTemp 5, img_position = lit ''center'', img_size = 50,
          img_transparency = 50, img_quality = 100, img_is_video = False, img_rotation = 0,
          img_effect = lit ''none'', img_effect_speed = 50\<rparr>))"
proof -
  have "qv 100 = 1" by code_simp
  then show ?thesis by (simp add: cmd_of_rate)
qed

subsection \<open>Effect speed\<close>

text \<open>
  Claim C6 at the speeds 1 and 100, for an image watermark on a video with the effect
  \<open>move_diagonal_dr\<close>: the compiled overlay moves with the factor 2 at speed 1 and
  with the factor 200 at speed 100, so the higher value moves the watermark faster.
\<close>

theorem diagonal_motion_grows_with_effect_speed:
  "overlay_rate (overlay_filter_of (example_image_args 1)) = 2
   \<and> overlay_rate (overlay_filter_of (example_image_args 100)) = 200"
  by (simp add: example_image_args_def overlay_filter_of_def speed_factor_img_def lit_def)

subsection \<open>Media transform executor\<close>

lemma example_text_command: "\<exists>c. ffmpeg_command_of None example_text_args = Inr c"
  by (simp add: ffmpeg_command_of_def drawtext_filter_def Let_def example_text_args_def lit_def)

lemma image_routine_times_out:
  "fst (apply_image_watermark (example_env (Runs None 0 [] False)) (example_image_args 50)
     empty_state) = Inl FFmpegTimedOut
   \<and> fst (apply_image_watermark (example_env (Runs (Some 301) 0 [] True)) (example_image_args 50)
     empty_state) = Inl FFmpegTimedOut"
  by (simp add: apply_image_watermark_def example_env_def Let_def)

text \<open>
  Claim C3 at a process that never exits and at one that exits with code 0 after 301
  seconds: the text routine \<open>apply_watermark\<close> never returns in the first case and
  returns the output path in the second, so it applies no timeout; the image routine
  raises the timeout failure in both cases (lemma \<open>image_routine_times_out\<close>).
\<close>

theorem text_routine_without_timeout:
  "fst (apply_watermark (example_env (Runs None 0 [] False)) example_text_args empty_state) = None
   \<and> fst (apply_watermark (example_env (Runs (Some 301) 0 [] True)) example_text_args empty_state)
       = Some (Inr (WatermarkedFile 1 (lit ''mp4'')))"
  using example_text_command
  by (auto simp add: apply_watermark_def example_env_def Let_def example_text_args_def)

subsection \<open>Auto buttons\<close>

text \<open>
  Claim C2 at the configuration \<open>Info - popup: Hello\<close>, the form the bot's own help text
  gives for a popup button: the parser produces no button for it.
\<close>

theorem popup_segment_gives_no_button:
  "parse_buttons (lit ''Info - popup: Hello'') = []"
  by (simp add: parse_buttons_def parse_part_def split_str_def strip_def isspace_def
        contains_def lit_def)

subsection \<open>Temporary files\<close>

lemmas example_defs = example_channel_def example_photo_def example_state_def empty_state_def
  example_album_state_def example_env_def ch_info_of_def lit_def

lemmas album_defs = process_media_group_def watermark_active_def process_album_message_def
  album_media_def download_telegram_file_def emit_def write_file_def apply_watermark_def
  ffmpeg_command_of_def drawtext_filter_def text_args_def delete_album_def unlink_def
  exists_p_def Let_def

lemmas post_defs = handle_channel_post_def has_media_def watermark_unconfigured_def compose_def
  apply_auto_buttons_def apply_auto_captions_def button_active_def caption_active_def
  reactions_active_def original_text_def original_entities_def watermark_post_def
  media_of_def run_watermark_def replace_media_def notify_failure_def cleanup_def edit_post_def

lemma album_item_arrival:
  "handle_channel_post en (Some (example_photo (Some (lit ''g'')))) example_state
     = (Done, example_album_state)"
  by (simp add: handle_channel_post_def store_album_message_def Let_def example_defs)

lemma single_post_failure_leaves_no_file:
  "files (snd (handle_channel_post (example_env (Runs (Some 1) 1 (lit ''error'') False))
        (Some (example_photo None)) example_state)) = []"
  by (simp add: post_defs album_defs example_defs)

text \<open>
  Claim C4 at an album of one photo whose transcoding process exits with code 1: the
  batch consumer returns and the downloaded source file is still on disk.  (For the
  same photo as a single post the file is removed: lemma
  \<open>single_post_failure_leaves_no_file\<close>.)
\<close>

theorem album_failure_leaves_downloaded_file:
  "fst (process_media_group (example_env (Runs (Some 1) 1 (lit ''error'') False)) (lit ''g'')
        example_album_state) = Done
   \<and> files (snd (process_media_group (example_env (Runs (Some 1) 1 (lit ''error'') False))
        (lit ''g'') example_album_state)) = [TempFile 0 (lit ''jpg'')]"
  by (simp add: album_defs example_defs)

end
